theory Spec2Isabelle
  imports Main "HOL-Library.Word"
begin

section \<open>JavaScript values used by the SMS engine\<close>

text \<open>
  A JavaScript string is a sequence of UTF-16 code units and \<open>length\<close> counts them.
  Here a \<^typ>\<open>char\<close> stands for one code unit below 256, so the model covers texts in
  that range; \<open>trim\<close>, \<open>toLowerCase\<close>, \<open>substring\<close> and \<open>includes\<close> are written out
  for it. Numbers are mathematical integers, timestamps are milliseconds as naturals.
  The arithmetic of a Number is that of the integers as long as the magnitudes stay
  within \<open>2^53\<close>, and \<open>parseInt\<close> of a Number is that Number below \<open>10^21\<close>; what the
  language computes beyond these bounds, where a top-up brings amounts from outside, is
  left to two parameters (\<open>numbers\<close> below).
\<close>

definition isWhiteSpace :: "char \<Rightarrow> bool" where
  \<comment> \<open>ECMAScript WhiteSpace and LineTerminator code units below 256: TAB, LF, VT, FF, CR, SP, NBSP.\<close>
  "isWhiteSpace c = ((of_char c :: nat) \<in> {9, 10, 11, 12, 13, 32, 160})"

definition trim :: "string \<Rightarrow> string" where
  "trim s = rev (dropWhile isWhiteSpace (rev (dropWhile isWhiteSpace s)))"

definition lowerChar :: "char \<Rightarrow> char" where
  "lowerChar c =
     (let n = (of_char c :: nat)
      in if (65 \<le> n \<and> n \<le> 90) \<or> (192 \<le> n \<and> n \<le> 222 \<and> n \<noteq> 215)
         then char_of (n + 32) else c)"

definition toLowerCase :: "string \<Rightarrow> string" where
  "toLowerCase s = map lowerChar s"

definition includesJS :: "string \<Rightarrow> string \<Rightarrow> bool" where
  "includesJS s t = list_ex (\<lambda>i. take (length t) (drop i s) = t) [0..<Suc (length s)]"

definition clampIndex :: "int \<Rightarrow> nat \<Rightarrow> nat" where
  \<comment> \<open>An index argument of \<open>substring\<close>: negative values count as 0, large ones as the length.\<close>
  "clampIndex i n = min (nat i) n"

definition substring :: "string \<Rightarrow> int \<Rightarrow> int \<Rightarrow> string" where
  \<comment> \<open>\<open>s.substring(a, b)\<close>: both indices clamped, swapped when \<open>a > b\<close>.\<close>
  "substring s a b =
     (let i = clampIndex a (length s); j = clampIndex b (length s)
      in take (max i j - min i j) (drop (min i j) s))"

definition substringFrom :: "string \<Rightarrow> int \<Rightarrow> string" where
  \<comment> \<open>\<open>s.substring(a)\<close>.\<close>
  "substringFrom s a = drop (clampIndex a (length s)) s"

datatype error =
    Error string
  | BadRequestError string
  | ServiceUnavailableError string
  | ValidationError string string string

text \<open>
  A \<open>ValidationError\<close> carries the model's name, the path that failed and the message
  of its validator; its \<open>message\<close> is Mongoose's
  \<open>User validation failed: phNo: Invalid phone number format\<close>. When several paths fail
  at once Mongoose lists them all; the model reports the first in the schema's order.
\<close>

fun errorMessage :: "error \<Rightarrow> string" where
  "errorMessage (Error m) = m"
| "errorMessage (BadRequestError m) = m"
| "errorMessage (ServiceUnavailableError m) = m"
| "errorMessage (ValidationError model path m) = model @ '' validation failed: '' @ path @ '': '' @ m"




section \<open>Documents of the three collections\<close>

datatype role = RoleUser | RoleAssistant | RoleSystem

datatype messageType = TypeText | TypeAudio | TypeImage

record message =
  phone :: string
  role :: role
  content :: string
  messageType :: messageType
  createdAt :: nat

record user =
  phNo :: string
  blance :: int
  smsSent :: int
  isActive :: bool
  lastActivity :: nat
  userCreatedAt :: nat
  updatedAt :: nat

record remainingMessage =
  rmPhone :: string
  rmContent :: string
  originalMessageId :: "nat option"
  messageIndex :: int
  totalParts :: int
  expiresAt :: nat
  rmCreatedAt :: nat

section \<open>The outside world: clock, HTTP services, and what a request leaves behind\<close>

type_synonym chatMessage = "role \<times> string"

type_synonym buffer = "8 word list"

record options =
  provider :: "string option"

definition noOptions :: options where
  \<comment> \<open>The default \<open>options = {}\<close>.\<close>
  "noOptions = \<lparr>provider = None\<rparr>"

datatype 'a axios =
    Response 'a
  | ErrorStatus nat
  | NoResponse
  | SetupError

record env =
  clock :: "nat \<Rightarrow> nat"
  grokApi :: "nat \<Rightarrow> chatMessage list \<Rightarrow> options \<Rightarrow> string option axios"
  whisperApi :: "nat \<Rightarrow> buffer \<Rightarrow> string \<Rightarrow> string \<Rightarrow> string option axios"
  axiosGet :: "string \<Rightarrow> buffer option"

datatype notification = Welcome | LowBalance | ExcessUsage

record world =
  ticks :: nat
  users :: "string \<rightharpoonup> user"
  messages :: "message list"
  remainingMessages :: "remainingMessage list"
  grokCalls :: "(chatMessage list \<times> options) list"
  whisperCalls :: "(buffer \<times> string \<times> string) list"
  twiml :: "string list"
  timers :: "(string \<times> notification) list"
  smsOut :: "(string \<times> string) list"

definition now :: "env \<Rightarrow> world \<Rightarrow> nat \<times> world" where
  \<comment> \<open>\<open>Date.now()\<close> / \<open>new Date()\<close>: the n-th reading of the clock.\<close>
  "now e w = (clock e (ticks w), w\<lparr>ticks := Suc (ticks w)\<rparr>)"

section \<open>models/Message.js\<close>

text \<open>
  Mongoose applies a path's setters (\<open>trim: true\<close>) to a document's values and to the
  values of a query filter, runs the declared validators when a document is created or
  saved, and evaluates a document's defaults at one instant. \<open>find().sort()\<close> is a
  stable sort of the matching documents in insertion order; \<open>limit(0)\<close> sets no limit
  and a negative limit counts as its absolute value.
\<close>

definition limit :: "int \<Rightarrow> 'a list \<Rightarrow> 'a list" where
  "limit n xs = (if n = 0 then xs else take (nat \<bar>n\<bar>) xs)"

definition Message_create ::
  "env \<Rightarrow> string \<Rightarrow> role \<Rightarrow> string \<Rightarrow> world \<Rightarrow> (error + message) \<times> world" where
  "Message_create e ph r c w =
     (let (t, w1) = now e w;
          doc = \<lparr>phone = trim ph, role = r, content = trim c,
                 messageType = TypeText, createdAt = t\<rparr>
      in if phone doc = []
           then (Inl (ValidationError ''Message'' ''phone'' ''Phone number is required''), w1)
         else if content doc = [] then (Inl (ValidationError ''Message'' ''content'' ''Message content is required''), w1)
         else if 2000 < length (content doc)
           then (Inl (ValidationError ''Message'' ''content''
                        ''Message content cannot exceed 2000 characters''), w1)
         else (Inr doc, w1\<lparr>messages := messages w1 @ [doc]\<rparr>))"

definition getConversationHistory ::
  "string \<Rightarrow> int \<Rightarrow> message list \<Rightarrow> (role \<times> string \<times> nat) list" where
  \<comment> \<open>\<open>find({phone}).sort({createdAt: 1}).limit(limit).select("role content createdAt")\<close>\<close>
  "getConversationHistory phoneNumber n docs =
     map (\<lambda>m. (role m, content m, createdAt m))
       (limit n (sort_key createdAt (filter (\<lambda>m. phone m = trim phoneNumber) docs)))"

definition getRecentMessages ::
  "string \<Rightarrow> int \<Rightarrow> message list \<Rightarrow> (role \<times> string \<times> nat) list" where
  \<comment> \<open>\<open>find({phone}).sort({createdAt: -1}).limit(limit).select("role content createdAt")\<close>\<close>
  "getRecentMessages phoneNumber n docs =
     map (\<lambda>m. (role m, content m, createdAt m))
       (limit n (sort_key (\<lambda>m. - int (createdAt m)) (filter (\<lambda>m. phone m = trim phoneNumber) docs)))"

definition deleteUserMessages :: "string \<Rightarrow> world \<Rightarrow> world" where
  "deleteUserMessages phoneNumber w =
     w\<lparr>messages := filter (\<lambda>m. phone m \<noteq> trim phoneNumber) (messages w)\<rparr>"

definition formattedHistory :: "(role \<times> string \<times> nat) list \<Rightarrow> chatMessage list" where
  \<comment> \<open>\<open>conversationHistory.map((msg) => ({role: msg.role, content: msg.content}))\<close>
      in \<open>generateAIResponse\<close>.\<close>
  "formattedHistory h = map (\<lambda>(r, c, t). (r, c)) h"

section \<open>models/User.js\<close>

definition phoneChar :: "char \<Rightarrow> bool" where
  \<comment> \<open>The character class \<open>[\d\s\-\(\)]\<close>.\<close>
  "phoneChar c =
     (let n = (of_char c :: nat)
      in (48 \<le> n \<and> n \<le> 57) \<or> isWhiteSpace c \<or> c = CHR ''-'' \<or> c = CHR ''('' \<or> c = CHR '')'')"

definition phoneRegex :: "string \<Rightarrow> bool" where
  \<comment> \<open>\<open>/^\+?[\d\s\-\(\)]+$/.test(v)\<close>\<close>
  "phoneRegex v =
     (let r = (case v of [] \<Rightarrow> [] | c # t \<Rightarrow> if c = CHR ''+'' then t else v)
      in r \<noteq> [] \<and> list_all phoneChar r)"

definition User_findOne :: "string \<Rightarrow> world \<Rightarrow> user option" where
  \<comment> \<open>\<open>User.findOne({phNo: phoneNumber})\<close>; \<open>phNo\<close> is unique, so the collection is a map.\<close>
  "User_findOne phoneNumber w = users w (trim phoneNumber)"

definition User_create ::
  "env \<Rightarrow> string \<Rightarrow> int \<Rightarrow> int \<Rightarrow> world \<Rightarrow> (error + user) \<times> world" where
  \<comment> \<open>\<open>User.create({phNo, blance, smsSent})\<close> with the schema's setters, defaults and validators.\<close>
  "User_create e ph b n w =
     (let (t, w1) = now e w;
          doc = \<lparr>phNo = trim ph, blance = b, smsSent = n, isActive = True,
                 lastActivity = t, userCreatedAt = t, updatedAt = t\<rparr>
      in if phNo doc = []
           then (Inl (ValidationError ''User'' ''phNo'' ''Phone number is required''), w1)
         else if \<not> phoneRegex (phNo doc)
           then (Inl (ValidationError ''User'' ''phNo'' ''Invalid phone number format''), w1)
         else if blance doc < 0
           then (Inl (ValidationError ''User'' ''blance'' ''Balance cannot be negative''), w1)
         else if smsSent doc < 0
           then (Inl (ValidationError ''User'' ''smsSent'' ''SMS count cannot be negative''), w1)
         else if users w1 (phNo doc) \<noteq> None then (Inl (Error ''E11000 duplicate key error''), w1)
         else (Inr doc, w1\<lparr>users := (users w1)(phNo doc \<mapsto> doc)\<rparr>))"

definition consumeCredit :: "env \<Rightarrow> user \<Rightarrow> world \<Rightarrow> (bool \<times> user) \<times> world" where
  "consumeCredit e u w =
     (if 0 < blance u
      then (let (t, w1) = now e w
            in ((True, u\<lparr>blance := blance u - 1, smsSent := smsSent u + 1, lastActivity := t\<rparr>), w1))
      else ((False, u), w))"

definition User_save :: "env \<Rightarrow> user \<Rightarrow> world \<Rightarrow> (error + user) \<times> world" where
  \<comment> \<open>\<open>user.save()\<close>: the validators of the changed paths, then the pre-save hook
      (\<open>this.updatedAt = new Date()\<close>), then the write.\<close>
  "User_save e u w =
     (if blance u < 0
        then (Inl (ValidationError ''User'' ''blance'' ''Balance cannot be negative''), w)
      else if smsSent u < 0
        then (Inl (ValidationError ''User'' ''smsSent'' ''SMS count cannot be negative''), w)
      else (let (t, w1) = now e w; doc = u\<lparr>updatedAt := t\<rparr>
            in (Inr doc, w1\<lparr>users := (users w1)(phNo doc \<mapsto> doc)\<rparr>)))"

section \<open>models/RemainingMessage.js\<close>

definition first :: "'a list \<Rightarrow> 'a option" where
  \<comment> \<open>\<open>findOne\<close>: the first document of the sorted matches, or \<open>null\<close>.\<close>
  "first xs = (case xs of [] \<Rightarrow> None | x # _ \<Rightarrow> Some x)"

definition getLatestRemainingMessage ::
  "env \<Rightarrow> string \<Rightarrow> world \<Rightarrow> remainingMessage option \<times> world" where
  \<comment> \<open>\<open>findOne({phone, expiresAt: {$gt: new Date()}}).sort({createdAt: -1})\<close>\<close>
  "getLatestRemainingMessage e phoneNumber w =
     (let (t, w1) = now e w
      in (first (sort_key (\<lambda>r. - int (rmCreatedAt r))
                  (filter (\<lambda>r. rmPhone r = trim phoneNumber \<and> t < expiresAt r)
                     (remainingMessages w1))), w1))"

definition createRemainingMessage ::
  "env \<Rightarrow> string \<Rightarrow> string \<Rightarrow> nat option \<Rightarrow> world \<Rightarrow> (error + remainingMessage) \<times> world" where
  "createRemainingMessage e phoneNumber c originalId w =
     (let latestMessage = first (sort_key (\<lambda>r. - messageIndex r)
                            (filter (\<lambda>r. rmPhone r = trim phoneNumber) (remainingMessages w)));
          idx = (case latestMessage of None \<Rightarrow> 1 | Some r \<Rightarrow> messageIndex r + 1);
          (t, w1) = now e w;
          doc = \<lparr>rmPhone = trim phoneNumber, rmContent = trim c, originalMessageId = originalId,
                 messageIndex = idx, totalParts = idx,
                 expiresAt = t + 24 * 60 * 60 * 1000, rmCreatedAt = t\<rparr>
      in if rmPhone doc = []
           then (Inl (ValidationError ''RemainingMessage'' ''phone'' ''Phone number is required''), w1)
         else if rmContent doc = []
           then (Inl (ValidationError ''RemainingMessage'' ''content''
                        ''Remaining content is required''), w1)
         else if length (trim (rmContent doc)) = 0
           then (Inl (Error ''Remaining message content cannot be empty''), w1)
         else (let doc1 = (if totalParts doc < messageIndex doc
                           then doc\<lparr>totalParts := messageIndex doc\<rparr> else doc)
               in (Inr doc1, w1\<lparr>remainingMessages := remainingMessages w1 @ [doc1]\<rparr>)))"

section \<open>config/index.js\<close>

record app_config =
  freeSmsCredits :: int
  maxSmsLength :: int

definition orElse :: "int option \<Rightarrow> int \<Rightarrow> int" where
  \<comment> \<open>\<open>parseInt(x) || d\<close>: \<open>None\<close> is \<open>NaN\<close>; \<open>NaN\<close> and 0 are falsy.\<close>
  "orElse p d = (case p of None \<Rightarrow> d | Some n \<Rightarrow> if n = 0 then d else n)"

definition config_app :: "int option \<Rightarrow> int option \<Rightarrow> app_config" where
  \<comment> \<open>The arguments are \<open>parseInt(process.env.FREE_SMS_CREDITS)\<close> and
      \<open>parseInt(process.env.MAX_SMS_LENGTH)\<close>.\<close>
  "config_app free maxLen = \<lparr>freeSmsCredits = orElse free 9, maxSmsLength = orElse maxLen 1600\<rparr>"

section \<open>Numbers in template strings\<close>

fun showNat :: "nat \<Rightarrow> string" where
  "showNat n = (if n < 10 then [char_of (48 + n)] else showNat (n div 10) @ [char_of (48 + n mod 10)])"

definition showInt :: "int \<Rightarrow> string" where
  "showInt i = (if i < 0 then CHR ''-'' # showNat (nat (- i)) else showNat (nat i))"

section \<open>services/ai/grok.service.js\<close>

definition systemPrompt :: string where
  \<comment> \<open>The source's prompt has a dash outside ASCII where this text has \<open>-\<close>.\<close>
  "systemPrompt = ''You are a helpful assistant. Always reply using plain text only '' @
     ''- no Markdown, no asterisks, no bullet points, and no special formatting. '' @
     ''Keep your responses under 1600 characters. Write clearly and directly.''"

definition getResponse ::
  "env \<Rightarrow> chatMessage list \<Rightarrow> options \<Rightarrow> world \<Rightarrow> (error + string) \<times> world" where
  \<comment> \<open>One POST to the Grok endpoint; every failure, also the \<open>BadRequestError\<close> thrown inside
      the \<open>try\<close> for an unexpected response, leaves through the \<open>catch\<close> block.\<close>
  "getResponse e msgs opts w =
     (let w1 = w\<lparr>grokCalls := grokCalls w @ [(msgs, opts)]\<rparr>
      in (case grokApi e (length (grokCalls w)) msgs opts of
            Response (Some c) \<Rightarrow> Inr c
          | Response None \<Rightarrow> Inl (ServiceUnavailableError ''Failed to communicate with Grok AI API'')
          | ErrorStatus st \<Rightarrow>
              (if st = 400 then Inl (BadRequestError ''Invalid request to Grok AI API'')
               else if st = 401 then Inl (BadRequestError ''Invalid Grok AI API key'')
               else if st = 429 then Inl (BadRequestError ''Rate limit exceeded for Grok AI API'')
               else if st = 500
                 then Inl (ServiceUnavailableError ''Grok AI service temporarily unavailable'')
               else Inl (ServiceUnavailableError (''Grok AI API error: '' @ showNat st)))
          | NoResponse \<Rightarrow> Inl (ServiceUnavailableError ''No response from Grok AI API'')
          | SetupError \<Rightarrow> Inl (ServiceUnavailableError ''Failed to communicate with Grok AI API''),
          w1))"

definition getConversationalResponse ::
  "env \<Rightarrow> string \<Rightarrow> chatMessage list \<Rightarrow> options \<Rightarrow> world \<Rightarrow> (error + string) \<times> world" where
  "getConversationalResponse e userMessage conversationHistory opts w =
     getResponse e ((RoleSystem, systemPrompt) # conversationHistory @ [(RoleUser, userMessage)]) opts w"

section \<open>services/ai/openai.service.js\<close>

definition transcribeAudioBuffer ::
  "env \<Rightarrow> buffer \<Rightarrow> string \<Rightarrow> string \<Rightarrow> world \<Rightarrow> (error + string) \<times> world" where
  \<comment> \<open>An empty buffer is refused before the POST; that error too passes the \<open>catch\<close> block,
      which rewrites an error without \<open>response\<close> or \<open>request\<close>.\<close>
  "transcribeAudioBuffer e buf filename mime w =
     (if buf = []
      then (Inl (ServiceUnavailableError ''Failed to communicate with OpenAI Whisper API''), w)
      else
       (let w1 = w\<lparr>whisperCalls := whisperCalls w @ [(buf, filename, mime)]\<rparr>
        in (case whisperApi e (length (whisperCalls w)) buf filename mime of
              Response t \<Rightarrow>
                (case t of
                   None \<Rightarrow> Inl (ServiceUnavailableError ''Failed to communicate with OpenAI Whisper API'')
                 | Some txt \<Rightarrow>
                     if txt = []
                     then Inl (ServiceUnavailableError ''Failed to communicate with OpenAI Whisper API'')
                     else Inr (trim txt))
            | ErrorStatus st \<Rightarrow>
                (if st = 400
                   then Inl (BadRequestError ''Invalid audio format or request to OpenAI Whisper'')
                 else if st = 401 then Inl (BadRequestError ''Invalid OpenAI API key'')
                 else if st = 413
                   then Inl (BadRequestError ''Audio file too large for OpenAI Whisper'')
                 else if st = 429
                   then Inl (BadRequestError ''Rate limit exceeded for OpenAI Whisper API'')
                 else if st = 500
                   then Inl (ServiceUnavailableError ''OpenAI Whisper service temporarily unavailable'')
                 else Inl (ServiceUnavailableError (''OpenAI Whisper API error: '' @ showNat st)))
            | NoResponse \<Rightarrow> Inl (ServiceUnavailableError ''No response from OpenAI Whisper API'')
            | SetupError \<Rightarrow>
                Inl (ServiceUnavailableError ''Failed to communicate with OpenAI Whisper API''),
            w1)))"

definition getSupportedFormats :: "string list" where
  "getSupportedFormats =
     [''audio/wav'', ''audio/mp3'', ''audio/mp4'', ''audio/mpeg'', ''audio/mpga'',
      ''audio/webm'', ''audio/ogg'']"

section \<open>services/ingest/audioInbound.service.js\<close>

record request =
  From :: string
  Body :: "string option"
  MediaUrl0 :: "string option"
  MediaContentType0 :: "string option"

definition maxAudioSize :: nat where
  "maxAudioSize = 25 * 1024 * 1024"

definition downloadAudio :: "env \<Rightarrow> string \<Rightarrow> error + buffer" where
  "downloadAudio e audioUrl =
     (case axiosGet e audioUrl of
        None \<Rightarrow> Inl (Error ''Failed to download audio file'')
      | Some b \<Rightarrow> Inr b)"

definition audioFailure :: "error \<Rightarrow> error + string option \<times> bool" where
  \<comment> \<open>The \<open>catch\<close> block of \<open>processInboundAudio\<close>.\<close>
  "audioFailure err =
     (if includesJS (errorMessage err) ''too large''
      then Inr (Some ''audio too large'', True)
      else Inl (BadRequestError (''Failed to process audio: '' @ errorMessage err)))"

definition orDefault :: "string option \<Rightarrow> string \<Rightarrow> string" where
  \<comment> \<open>\<open>x || d\<close> on an optional string.\<close>
  "orDefault v d = (case v of None \<Rightarrow> d | Some s \<Rightarrow> if s = [] then d else s)"

definition processInboundAudio ::
  "env \<Rightarrow> request \<Rightarrow> world \<Rightarrow> (error + string option \<times> bool) \<times> world" where
  "processInboundAudio e req w =
     (case MediaUrl0 req of
        None \<Rightarrow> (Inr (None, False), w)
      | Some audioUrl \<Rightarrow>
          if audioUrl = [] then (Inr (None, False), w)
          else
           (case downloadAudio e audioUrl of
              Inl err \<Rightarrow> (audioFailure err, w)
            | Inr audioBuffer \<Rightarrow>
                if maxAudioSize < length audioBuffer
                then (Inr (Some ''audio too large'', True), w)
                else
                 (case transcribeAudioBuffer e audioBuffer ''audio.wav''
                         (orDefault (MediaContentType0 req) ''audio/wav'') w of
                    (Inl err, w1) \<Rightarrow> (audioFailure err, w1)
                  | (Inr transcript, w1) \<Rightarrow> (Inr (Some transcript, True), w1))))"

definition handleAudioInbound ::
  "env \<Rightarrow> request \<Rightarrow> world \<Rightarrow> (error + string option \<times> bool) \<times> world" where
  "handleAudioInbound e req w = processInboundAudio e req w"

definition validateAudio :: "buffer \<Rightarrow> string \<Rightarrow> bool" where
  "validateAudio audioBuffer contentType =
     (if audioBuffer = [] then False
      else if maxAudioSize < length audioBuffer then False
      else contentType \<in> set getSupportedFormats)"

section \<open>services/ai/router.service.js\<close>

definition defaultProvider :: string where
  "defaultProvider = ''grok''"

definition fallbackProvider :: string where
  "fallbackProvider = ''openai''"

definition objectPrototypeKeys :: "string list" where
  \<comment> \<open>\<open>this.providers\<close> is an object literal: a lookup also finds what it inherits.\<close>
  "objectPrototypeKeys =
     [''constructor'', ''__proto__'', ''hasOwnProperty'', ''isPrototypeOf'',
      ''propertyIsEnumerable'', ''toLocaleString'', ''toString'', ''valueOf'',
      ''__defineGetter__'', ''__defineSetter__'', ''__lookupGetter__'', ''__lookupSetter__'']"

definition providers :: "string \<Rightarrow> bool" where
  \<comment> \<open>Whether \<open>this.providers[name]\<close> is truthy.\<close>
  "providers name = (name \<in> set [''grok'', ''openai''] \<or> name \<in> set objectPrototypeKeys)"

definition isComplexMessage :: "string \<Rightarrow> bool" where
  "isComplexMessage message =
     list_ex (includesJS (toLowerCase message))
       [''explain'', ''how to'', ''what is'', ''why does'', ''analyze'', ''compare'',
        ''describe'', ''elaborate'', ''detailed'', ''comprehensive'']"

definition hasTechnicalTerms :: "string \<Rightarrow> bool" where
  "hasTechnicalTerms message =
     list_ex (includesJS (toLowerCase message))
       [''api'', ''database'', ''algorithm'', ''framework'', ''protocol'', ''architecture'',
        ''integration'', ''deployment'', ''optimization'', ''scalability'']"

definition explicitProvider :: "options \<Rightarrow> string option" where
  \<comment> \<open>\<open>options.provider && this.providers[options.provider]\<close>: the override, when it counts.\<close>
  "explicitProvider opts =
     (case provider opts of
        None \<Rightarrow> None
      | Some p \<Rightarrow> if p \<noteq> [] \<and> providers p then Some p else None)"

definition selectProvider :: "string \<Rightarrow> chatMessage list \<Rightarrow> options \<Rightarrow> string" where
  "selectProvider message conversationHistory opts =
     (case explicitProvider opts of
        Some p \<Rightarrow> p
      | None \<Rightarrow>
         (let messageLength = length message;
              isComplex = isComplexMessage message;
              hasTechnical = hasTechnicalTerms message;
              conversationLength = length conversationHistory
          in if isComplex \<or> hasTechnical \<or> 5 < conversationLength then ''grok''
             else if 500 < messageLength then ''grok''
             else defaultProvider))"

definition selectedCall ::
  "env \<Rightarrow> string \<Rightarrow> chatMessage list \<Rightarrow> options \<Rightarrow> world \<Rightarrow> (error + string) \<times> world" where
  \<comment> \<open>The \<open>try\<close> block of \<open>routeMessage\<close>: the call of the selected provider.\<close>
  "selectedCall e message conversationHistory opts w =
     (let p = selectProvider message conversationHistory opts
      in if p = ''grok'' then getConversationalResponse e message conversationHistory opts w
         else if p = ''openai''
           then (Inl (Error ''OpenAI text processing not implemented yet''), w)
         else (Inl (Error (''Unknown AI provider: '' @ p)), w))"

definition routeMessage ::
  "env \<Rightarrow> string \<Rightarrow> chatMessage list \<Rightarrow> options \<Rightarrow> world \<Rightarrow> (error + string) \<times> world" where
  "routeMessage e message conversationHistory opts w =
     (case selectedCall e message conversationHistory opts w of
        (Inr response, w1) \<Rightarrow> (Inr response, w1)
      | (Inl err, w1) \<Rightarrow>
          (case getConversationalResponse e message conversationHistory opts w1 of
             (Inr fallbackResponse, w2) \<Rightarrow> (Inr fallbackResponse, w2)
           | (Inl fallbackError, w2) \<Rightarrow>
               (Inl (Error ''All AI services are currently unavailable''), w2)))"

section \<open>controllers/sms.controller.js\<close>

definition sendTwiMLResponse :: "string \<Rightarrow> world \<Rightarrow> world" where
  \<comment> \<open>The reply written to \<open>res\<close>, kept as its text.\<close>
  "sendTwiMLResponse msg w = w\<lparr>twiml := twiml w @ [msg]\<rparr>"

definition newline :: string where
  "newline = [CHR 0x0A]"

definition handleSpecialCommands :: "env \<Rightarrow> string \<Rightarrow> string \<Rightarrow> world \<Rightarrow> bool \<times> world" where
  "handleSpecialCommands e phoneNumber message w =
     (let lowerMessage = trim (toLowerCase message)
      in if lowerMessage = ''stop''
           then (True, sendTwiMLResponse ''You have opted-in to receive messages from Textile.'' w)
         else if lowerMessage = ''account''
           then (let credits = (case User_findOne phoneNumber w of None \<Rightarrow> 0 | Some u \<Rightarrow> blance u);
                     accountMessage =
                       ''You have '' @ showInt credits @ '' credits remaining.'' @ newline @
                       ''Reply DELETE HISTORY to delete all your message records.'' @ newline @
                       ''Reply DELETE ACCOUNT to delete your account and all data.''
                 in (True, sendTwiMLResponse accountMessage w))
         else if lowerMessage = ''delete history''
           then (True, sendTwiMLResponse ''Your message history has been deleted.''
                         (deleteUserMessages phoneNumber w))
         else if lowerMessage = ''delete account''
           then (let w1 = w\<lparr>users := (users w)(trim phoneNumber := None)\<rparr>;
                     w2 = deleteUserMessages phoneNumber w1;
                     w3 = w2\<lparr>remainingMessages :=
                              filter (\<lambda>r. rmPhone r \<noteq> trim phoneNumber) (remainingMessages w2)\<rparr>
                 in (True, sendTwiMLResponse ''Your account and all related data have been deleted.'' w3))
         else if lowerMessage = ''more''
           then (case getLatestRemainingMessage e phoneNumber w of
                   (remainingMsg, w1) \<Rightarrow>
                     (let result = (case remainingMsg of
                                      Some r \<Rightarrow> rmContent r
                                    | None \<Rightarrow> ''You do not have any previous SMS'')
                      in (True, sendTwiMLResponse result w1)))
         else (False, w))"

definition manageUserCredits ::
  "env \<Rightarrow> app_config \<Rightarrow> string \<Rightarrow> world \<Rightarrow> (error + user option) \<times> world" where
  \<comment> \<open>\<open>Inr None\<close> is the source's \<open>null\<close>: the account is blocked.\<close>
  "manageUserCredits e cfg phoneNumber w =
     (case User_findOne phoneNumber w of
        None \<Rightarrow>
          (case User_create e phoneNumber (freeSmsCredits cfg) 1 w of
             (Inl err, w1) \<Rightarrow> (Inl err, w1)
           | (Inr u, w1) \<Rightarrow> (Inr (Some u), w1))
      | Some u \<Rightarrow>
          if blance u \<le> 0 then (Inr None, w)
          else
           (case consumeCredit e u w of
              ((consumed, u1), w1) \<Rightarrow>
                (case User_save e u1 w1 of
                   (Inl err, w2) \<Rightarrow> (Inl err, w2)
                 | (Inr u2, w2) \<Rightarrow> (Inr (Some u2), w2))))"

definition generateAIResponse ::
  "env \<Rightarrow> string \<Rightarrow> string \<Rightarrow> world \<Rightarrow> (error + string) \<times> world" where
  "generateAIResponse e phoneNumber message w =
     (case Message_create e phoneNumber RoleUser message w of
        (Inl err, w1) \<Rightarrow> (Inl err, w1)
      | (Inr saved, w1) \<Rightarrow>
          (let conversationHistory = getConversationHistory phoneNumber 10 (messages w1)
           in (case routeMessage e message (formattedHistory conversationHistory) noOptions w1 of
                 (Inl err, w2) \<Rightarrow> (Inl err, w2)
               | (Inr aiResponse, w2) \<Rightarrow>
                   (case Message_create e phoneNumber RoleAssistant aiResponse w2 of
                      (Inl err, w3) \<Rightarrow> (Inl err, w3)
                    | (Inr saved2, w3) \<Rightarrow> (Inr aiResponse, w3)))))"

definition continueMarker :: string where
  "continueMarker = ''....Reply MORE to continue reading''"

definition handleLongResponse ::
  "env \<Rightarrow> app_config \<Rightarrow> string \<Rightarrow> string \<Rightarrow> world \<Rightarrow> (error + string) \<times> world" where
  "handleLongResponse e cfg phoneNumber response w =
     (if int (length response) \<le> maxSmsLength cfg then (Inr response, w)
      else
       (let allowedLength = maxSmsLength cfg - 34;
            truncatedResponse = substring response 0 allowedLength;
            remainingText = substringFrom response allowedLength
        in (case createRemainingMessage e phoneNumber remainingText None w of
              (Inl err, w1) \<Rightarrow> (Inl err, w1)
            | (Inr saved, w1) \<Rightarrow> (Inr (truncatedResponse @ continueMarker), w1))))"

definition setTimeout :: "string \<Rightarrow> notification \<Rightarrow> world \<Rightarrow> world" where
  \<comment> \<open>A notification scheduled to be sent one second later.\<close>
  "setTimeout phoneNumber n w = w\<lparr>timers := timers w @ [(phoneNumber, n)]\<rparr>"

definition sendNotificationMessages :: "string \<Rightarrow> user \<Rightarrow> world \<Rightarrow> world" where
  "sendNotificationMessages phoneNumber u w =
     (let w1 = (if smsSent u = 1 then setTimeout phoneNumber Welcome w else w);
          w2 = (if blance u = 10 then setTimeout phoneNumber LowBalance w1 else w1)
      in if blance u < 2 then setTimeout phoneNumber ExcessUsage w2 else w2)"

definition processUserMessage ::
  "env \<Rightarrow> app_config \<Rightarrow> string \<Rightarrow> string \<Rightarrow> world \<Rightarrow> (error + unit) \<times> world" where
  "processUserMessage e cfg phoneNumber message w =
     (case handleSpecialCommands e phoneNumber message w of
        (True, w1) \<Rightarrow> (Inr (), w1)
      | (False, w1) \<Rightarrow>
          (case manageUserCredits e cfg phoneNumber w1 of
             (Inl err, w2) \<Rightarrow> (Inl err, w2)
           | (Inr None, w2) \<Rightarrow>
               (Inr (), sendTwiMLResponse ''Account blocked. Please contact support.'' w2)
           | (Inr (Some u), w2) \<Rightarrow>
               (case generateAIResponse e phoneNumber message w2 of
                  (Inl err, w3) \<Rightarrow> (Inl err, w3)
                | (Inr aiResponse, w3) \<Rightarrow>
                    (case handleLongResponse e cfg phoneNumber aiResponse w3 of
                       (Inl err, w4) \<Rightarrow> (Inl err, w4)
                     | (Inr finalResponse, w4) \<Rightarrow>
                         (Inr (), sendNotificationMessages phoneNumber u
                                    (sendTwiMLResponse finalResponse w4))))))"

definition mergeMessage :: "string \<Rightarrow> string option \<Rightarrow> bool \<Rightarrow> string" where
  \<comment> \<open>\<open>usedAudio && transcript ? (userMessage ? `${userMessage} ${transcript}` : transcript)
      : userMessage\<close>\<close>
  "mergeMessage userMessage transcript usedAudio =
     (case transcript of
        None \<Rightarrow> userMessage
      | Some t \<Rightarrow>
          if usedAudio \<and> t \<noteq> []
          then (if userMessage \<noteq> [] then userMessage @ '' '' @ t else t)
          else userMessage)"

definition genericFailure :: string where
  "genericFailure = ''Sorry, something went wrong. Please try again later.''"

definition handleIncomingSMS :: "env \<Rightarrow> app_config \<Rightarrow> request \<Rightarrow> world \<Rightarrow> world" where
  "handleIncomingSMS e cfg req w =
     (case handleAudioInbound e req w of
        (Inl err, w1) \<Rightarrow> sendTwiMLResponse genericFailure w1
      | (Inr (transcript, usedAudio), w1) \<Rightarrow>
          if transcript = Some ''audio too large''
          then sendTwiMLResponse ''Your audio is too large. Please send a shorter clip.'' w1
          else
           (let userMessage = mergeMessage (trim (orDefault (Body req) [])) transcript usedAudio
            in if userMessage = []
               then sendTwiMLResponse ''Please send a text message or audio clip.'' w1
               else
                (case processUserMessage e cfg (From req) userMessage w1 of
                   (Inl err, w2) \<Rightarrow> sendTwiMLResponse genericFailure w2
                 | (Inr finished, w2) \<Rightarrow> w2)))"

section \<open>controllers/payment.controller.js\<close>




section \<open>Sequences of admissions and the ledger invariant\<close>

fun admitAll :: "env \<Rightarrow> app_config \<Rightarrow> string list \<Rightarrow> world \<Rightarrow> world" where
  \<comment> \<open>Admission calls one after the other, each on the state the previous one left.\<close>
  "admitAll e cfg [] w = w"
| "admitAll e cfg (p # ps) w = admitAll e cfg ps (snd (manageUserCredits e cfg p w))"

definition balancesNonNegative :: "world \<Rightarrow> bool" where
  "balancesNonNegative w = (\<forall>u\<in>ran (users w). 0 \<le> blance u)"

section \<open>Concrete inputs\<close>

definition phone0 :: string where
  "phone0 = ''+15550001''"

definition env0 :: env where
  \<comment> \<open>A clock that advances by a second per reading; every service answers.\<close>
  "env0 = \<lparr>clock = (\<lambda>n. 1000 * Suc n),
           grokApi = (\<lambda>n msgs opts. Response (Some ''Hello from Grok'')),
           whisperApi = (\<lambda>n buf filename mime. Response (Some ''transcribed words'')),
           axiosGet = (\<lambda>url. Some [1, 2, 3])\<rparr>"

definition envDown :: env where
  \<comment> \<open>As \<open>env0\<close>, with the Grok endpoint answering 500 to every request.\<close>
  "envDown = env0\<lparr>grokApi := (\<lambda>n msgs opts. ErrorStatus 500)\<rparr>"

definition world0 :: world where
  "world0 = \<lparr>ticks = 0, users = Map.empty, messages = [], remainingMessages = [],
             grokCalls = [], whisperCalls = [], twiml = [], timers = [], smsOut = []\<rparr>"

definition config0 :: app_config where
  "config0 = config_app None None"

definition config40 :: app_config where
  "config40 = config_app None (Some 40)"

definition turn :: "nat \<Rightarrow> message" where
  "turn t = \<lparr>phone = phone0, role = (if odd t then RoleUser else RoleAssistant),
             content = ''turn '' @ showNat t, messageType = TypeText, createdAt = t\<rparr>"

definition longReply :: string where
  "longReply = ''abcdef ghijklmnopqrstuvwxyz0123456789ABCDEFGHIJ''"

definition part :: "nat \<Rightarrow> nat \<Rightarrow> string \<Rightarrow> remainingMessage" where
  "part created expires c = \<lparr>rmPhone = phone0, rmContent = c, originalMessageId = None,
       messageIndex = 1, totalParts = 1, expiresAt = expires, rmCreatedAt = created\<rparr>"

definition worldParts :: world where
  "worldParts = world0\<lparr>remainingMessages :=
      [part 100 86400100 ''first rest'', part 300 900 ''expired rest'', part 200 86400200 ''second rest'']\<rparr>"

definition account :: "int \<Rightarrow> int \<Rightarrow> user" where
  "account b n = \<lparr>phNo = phone0, blance = b, smsSent = n, isActive = True,
                  lastActivity = 5, userCreatedAt = 5, updatedAt = 5\<rparr>"

definition worldWith :: "user \<Rightarrow> world" where
  "worldWith u = world0\<lparr>users := [phone0 \<mapsto> u]\<rparr>"

definition envFlaky :: env where
  \<comment> \<open>The Grok endpoint fails its first request and answers the following ones.\<close>
  "envFlaky = env0\<lparr>grokApi := (\<lambda>n msgs opts. if n = 0 then NoResponse else Response (Some ''Hello again''))\<rparr>"

definition hello :: "chatMessage list" where
  "hello = [(RoleSystem, systemPrompt), (RoleUser, ''hello'')]"

definition videoRequest :: request where
  "videoRequest = \<lparr>From = phone0, Body = None,
      MediaUrl0 = Some ''https://api.twilio.com/media/ME1'', MediaContentType0 = Some ''video/mp4''\<rparr>"

definition helloRequest :: request where
  "helloRequest = \<lparr>From = phone0, Body = Some ''hello'', MediaUrl0 = None, MediaContentType0 = None\<rparr>"

definition helloTurn :: message where
  "helloTurn = \<lparr>phone = phone0, role = RoleUser, content = ''hello'', messageType = TypeText,
                 createdAt = 2000\<rparr>"

definition trialUser :: user where
  "trialUser = \<lparr>phNo = phone0, blance = 9, smsSent = 1, isActive = True,
                 lastActivity = 1000, userCreatedAt = 1000, updatedAt = 1000\<rparr>"

definition helloTwice :: "chatMessage list \<times> options" where
  \<comment> \<open>The history already holds the turn just stored, and the message follows it again.\<close>
  "helloTwice = ([(RoleSystem, systemPrompt), (RoleUser, ''hello''), (RoleUser, ''hello'')], noOptions)"







section \<open>Properties\<close>

subsection \<open>Strings and sorted queries\<close>

lemma dropWhile_rev_trimmed:
  "dropWhile P (rev (dropWhile P (rev (dropWhile P s)))) = rev (dropWhile P (rev (dropWhile P s)))"
proof (cases "dropWhile P (rev (dropWhile P s)) = []")
  case True
  show ?thesis unfolding True by simp
next
  case False
  let ?a = "dropWhile P s"
  let ?b = "dropWhile P (rev ?a)"
  from False obtain x where x: "x \<in> set (rev ?a)" "\<not> P x"
    by (auto simp: dropWhile_eq_Nil_conv)
  have a: "?a \<noteq> []"
  proof
    assume "?a = []"
    with x(1) show False by simp
  qed
  have "last ?b = last (rev ?a)"
    using x by (rule dropWhile_last)
  also have "\<dots> = hd ?a" using a by (simp add: last_rev)
  finally have "hd (rev ?b) = hd ?a" using False by (simp add: hd_rev)
  moreover have "\<not> P (hd ?a)" using a by (rule hd_dropWhile)
  ultimately show ?thesis by (simp add: dropWhile_eq_self_iff)
qed

lemma trim_idem: "trim (trim s) = trim s"
proof -
  let ?b = "dropWhile isWhiteSpace (rev (dropWhile isWhiteSpace s))"
  have "dropWhile isWhiteSpace (rev ?b) = rev ?b"
    by (rule dropWhile_rev_trimmed)
  then show ?thesis by (simp add: trim_def)
qed

lemma first_None: "first xs = None \<longleftrightarrow> xs = []"
  by (simp add: first_def split: list.splits)

lemma first_sort_key_None: "first (sort_key f xs) = None \<longleftrightarrow> xs = []"
  by (metis first_None set_empty set_sort)

lemma first_sort_key_Some:
  assumes "first (sort_key f xs) = Some x"
  shows "x \<in> set xs \<and> (\<forall>y\<in>set xs. f x \<le> f y)"
proof -
  obtain rest where eq: "sort_key f xs = x # rest"
    using assms by (auto simp: first_def split: list.splits)
  have "sorted (map f (x # rest))"
    using sorted_sort_key [of f xs] eq by simp
  then have le: "\<forall>y\<in>set (x # rest). f x \<le> f y"
    by auto
  have "set (x # rest) = set xs"
    using set_sort [of f xs] eq by simp
  then show ?thesis using le by auto
qed

lemma first_sort_key_unique:
  assumes "x \<in> set xs" and "\<forall>y\<in>set xs. y \<noteq> x \<longrightarrow> f x < f y"
  shows "first (sort_key f xs) = Some x"
proof (cases "first (sort_key f xs)")
  case None
  then show ?thesis using assms(1) first_sort_key_None [of f xs] by auto
next
  case (Some h)
  from first_sort_key_Some [OF Some] have "h \<in> set xs" and "f h \<le> f x"
    using assms(1) by auto
  then have "h = x" using assms(2) by force
  then show ?thesis using Some by simp
qed

lemma createRemainingMessage_ok:
  assumes "trim p \<noteq> []" and "trim c \<noteq> []"
  shows "\<exists>doc. createRemainingMessage e p c orig w =
            (Inr doc, w\<lparr>ticks := Suc (ticks w), remainingMessages := remainingMessages w @ [doc]\<rparr>)
         \<and> rmPhone doc = trim p \<and> rmContent doc = trim c
         \<and> rmCreatedAt doc = clock e (ticks w)
         \<and> expiresAt doc = clock e (ticks w) + 86400000"
  using assms
  by (simp add: createRemainingMessage_def now_def Let_def trim_idem)


lemma substring_prefix:
  assumes "0 \<le> a" and "a \<le> int (length s)"
  shows "substring s 0 a = take (nat a) s"
proof -
  have "nat a \<le> length s" using assms by linarith
  then show ?thesis
    by (simp add: substring_def clampIndex_def Let_def)
qed

lemma substringFrom_drop:
  assumes "0 \<le> a"
  shows "substringFrom s a = drop (nat a) s"
  using assms by (simp add: substringFrom_def clampIndex_def min_def)

lemma handleLongResponse_short:
  "int (length reply) \<le> maxSmsLength cfg \<Longrightarrow> handleLongResponse e cfg p reply w = (Inr reply, w)"
  by (simp add: handleLongResponse_def)

lemma handleLongResponse_long:
  assumes long: "maxSmsLength cfg < int (length reply)" and big: "34 \<le> maxSmsLength cfg"
    and ph: "trim p \<noteq> []" and rem: "trim (drop (nat (maxSmsLength cfg - 34)) reply) \<noteq> []"
  shows "\<exists>doc. handleLongResponse e cfg p reply w =
           (Inr (take (nat (maxSmsLength cfg - 34)) reply @ continueMarker),
            w\<lparr>ticks := Suc (ticks w), remainingMessages := remainingMessages w @ [doc]\<rparr>)
         \<and> rmPhone doc = trim p
         \<and> rmContent doc = trim (drop (nat (maxSmsLength cfg - 34)) reply)
         \<and> rmCreatedAt doc = clock e (ticks w)
         \<and> expiresAt doc = clock e (ticks w) + 86400000"
proof -
  let ?n = "maxSmsLength cfg - 34"
  have n0: "0 \<le> ?n" and nl: "?n \<le> int (length reply)" using long big by auto
  have pre: "substring reply 0 ?n = take (nat ?n) reply"
    by (rule substring_prefix [OF n0 nl])
  have suf: "substringFrom reply ?n = drop (nat ?n) reply"
    by (rule substringFrom_drop [OF n0])
  obtain doc where doc: "createRemainingMessage e p (drop (nat ?n) reply) None w =
            (Inr doc, w\<lparr>ticks := Suc (ticks w), remainingMessages := remainingMessages w @ [doc]\<rparr>)"
     "rmPhone doc = trim p" "rmContent doc = trim (drop (nat ?n) reply)"
     "rmCreatedAt doc = clock e (ticks w)" "expiresAt doc = clock e (ticks w) + 86400000"
    using createRemainingMessage_ok [OF ph rem, of e None w] by blast
  have "handleLongResponse e cfg p reply w =
           (Inr (take (nat ?n) reply @ continueMarker),
            w\<lparr>ticks := Suc (ticks w), remainingMessages := remainingMessages w @ [doc]\<rparr>)"
    using long by (simp add: handleLongResponse_def Let_def pre suf doc(1))
  then show ?thesis using doc by blast
qed

lemma lookup_after_create:
  assumes ph: "rmPhone doc = trim p"
    and cr: "rmCreatedAt doc = clock e (ticks w)"
    and ex: "expiresAt doc = clock e (ticks w) + 86400000"
    and older: "\<forall>r\<in>set (remainingMessages w). rmPhone r = trim p \<longrightarrow> rmCreatedAt r < clock e (ticks w)"
    and soon: "clock e (Suc (ticks w)) < clock e (ticks w) + 86400000"
  shows "fst (getLatestRemainingMessage e p
            (w\<lparr>ticks := Suc (ticks w), remainingMessages := remainingMessages w @ [doc]\<rparr>)) = Some doc"
proof -
  let ?t = "clock e (Suc (ticks w))"
  let ?live = "filter (\<lambda>r. rmPhone r = trim p \<and> ?t < expiresAt r) (remainingMessages w @ [doc])"
  have in_live: "doc \<in> set ?live" using ph ex soon by simp
  have newest: "\<forall>y\<in>set ?live. y \<noteq> doc \<longrightarrow> - int (rmCreatedAt doc) < - int (rmCreatedAt y)"
    using older cr by auto
  have "first (sort_key (\<lambda>r. - int (rmCreatedAt r)) ?live) = Some doc"
    by (rule first_sort_key_unique [OF in_live newest])
  then show ?thesis
    by (simp add: getLatestRemainingMessage_def now_def)
qed

lemma marker_length: "length continueMarker = 34"
  by (simp add: continueMarker_def)

lemma phone0_facts: "trim phone0 = phone0" "phone0 \<noteq> []"
  by (simp_all add: phone0_def trim_def isWhiteSpace_def)

lemma longReply_facts:
  "length longReply = 47" "maxSmsLength config40 = 40" "trim phone0 = phone0"
  "drop 6 longReply = '' ghijklmnopqrstuvwxyz0123456789ABCDEFGHIJ''"
  "trim ('' ghijklmnopqrstuvwxyz0123456789ABCDEFGHIJ'') = ''ghijklmnopqrstuvwxyz0123456789ABCDEFGHIJ''"
  "trim (''ghijklmnopqrstuvwxyz0123456789ABCDEFGHIJ'') = ''ghijklmnopqrstuvwxyz0123456789ABCDEFGHIJ''"
  "phone0 \<noteq> []"
  by (simp_all add: longReply_def config40_def config_app_def orElse_def phone0_def trim_def isWhiteSpace_def)

subsection \<open>Continuation Manager\<close>

text \<open>
  Claim C2, as the code has it. A reply no longer than \<open>maxSmsLength\<close> comes back
  unchanged and nothing is stored. A longer reply, with \<open>maxSmsLength\<close> at least 34, comes
  back as its prefix of length exactly \<open>maxSmsLength - 34\<close> followed by the 34-character
  marker, and one continuation is stored for the account. Its content is the remainder
  \<open>reply[maxSmsLength - 34:]\<close> with the white space at its two ends removed (the schema
  trims \<open>content\<close>), provided that is not empty and the identifier is not blank. The lookup
  made next, less than 24 hours later and with every earlier continuation of the account
  created strictly before, returns that continuation.
\<close>

theorem handleLongResponse_roundtrip:
  "(int (length reply) \<le> maxSmsLength cfg \<longrightarrow> handleLongResponse e cfg p reply w = (Inr reply, w))
   \<and> (maxSmsLength cfg < int (length reply) \<and> 34 \<le> maxSmsLength cfg \<and> trim p \<noteq> []
        \<and> trim (drop (nat (maxSmsLength cfg - 34)) reply) \<noteq> [] \<longrightarrow>
       (\<exists>doc. handleLongResponse e cfg p reply w =
           (Inr (take (nat (maxSmsLength cfg - 34)) reply @ continueMarker),
            w\<lparr>ticks := Suc (ticks w), remainingMessages := remainingMessages w @ [doc]\<rparr>)
         \<and> int (length (take (nat (maxSmsLength cfg - 34)) reply)) = maxSmsLength cfg - 34
         \<and> length continueMarker = 34
         \<and> rmPhone doc = trim p
         \<and> rmContent doc = trim (drop (nat (maxSmsLength cfg - 34)) reply)
         \<and> ((\<forall>r\<in>set (remainingMessages w). rmPhone r = trim p \<longrightarrow> rmCreatedAt r < clock e (ticks w))
              \<and> clock e (Suc (ticks w)) < clock e (ticks w) + 86400000 \<longrightarrow>
             fst (getLatestRemainingMessage e p (snd (handleLongResponse e cfg p reply w))) = Some doc)))"
proof (intro conjI impI)
  assume "int (length reply) \<le> maxSmsLength cfg"
  then show "handleLongResponse e cfg p reply w = (Inr reply, w)"
    by (rule handleLongResponse_short)
next
  assume h: "maxSmsLength cfg < int (length reply) \<and> 34 \<le> maxSmsLength cfg \<and> trim p \<noteq> []
        \<and> trim (drop (nat (maxSmsLength cfg - 34)) reply) \<noteq> []"
  then obtain doc where doc: "handleLongResponse e cfg p reply w =
           (Inr (take (nat (maxSmsLength cfg - 34)) reply @ continueMarker),
            w\<lparr>ticks := Suc (ticks w), remainingMessages := remainingMessages w @ [doc]\<rparr>)"
     "rmPhone doc = trim p" "rmContent doc = trim (drop (nat (maxSmsLength cfg - 34)) reply)"
     "rmCreatedAt doc = clock e (ticks w)" "expiresAt doc = clock e (ticks w) + 86400000"
    using handleLongResponse_long [of cfg reply p e w] by blast
  have "nat (maxSmsLength cfg - 34) \<le> length reply" using h by linarith
  then have len: "int (length (take (nat (maxSmsLength cfg - 34)) reply)) = maxSmsLength cfg - 34"
    using h by (simp add: min_absorb2)
  have look: "(\<forall>r\<in>set (remainingMessages w). rmPhone r = trim p \<longrightarrow> rmCreatedAt r < clock e (ticks w))
              \<and> clock e (Suc (ticks w)) < clock e (ticks w) + 86400000 \<longrightarrow>
             fst (getLatestRemainingMessage e p (snd (handleLongResponse e cfg p reply w))) = Some doc"
    using lookup_after_create [OF doc(2) doc(4) doc(5)] doc(1) by simp
  show "\<exists>doc. handleLongResponse e cfg p reply w =
           (Inr (take (nat (maxSmsLength cfg - 34)) reply @ continueMarker),
            w\<lparr>ticks := Suc (ticks w), remainingMessages := remainingMessages w @ [doc]\<rparr>)
         \<and> int (length (take (nat (maxSmsLength cfg - 34)) reply)) = maxSmsLength cfg - 34
         \<and> length continueMarker = 34
         \<and> rmPhone doc = trim p
         \<and> rmContent doc = trim (drop (nat (maxSmsLength cfg - 34)) reply)
         \<and> ((\<forall>r\<in>set (remainingMessages w). rmPhone r = trim p \<longrightarrow> rmCreatedAt r < clock e (ticks w))
              \<and> clock e (Suc (ticks w)) < clock e (ticks w) + 86400000 \<longrightarrow>
             fst (getLatestRemainingMessage e p (snd (handleLongResponse e cfg p reply w))) = Some doc)"
    using doc(1,2,3) len marker_length look by blast
qed

text \<open>
  The theorem at a short and at a long reply: with \<open>maxSmsLength = 40\<close> the 47-character
  reply is cut after 6 characters.
\<close>

theorem handleLongResponse_roundtrip_witness:
  "int (length ''ok'') \<le> maxSmsLength config40
   \<and> handleLongResponse env0 config40 phone0 ''ok'' world0 = (Inr ''ok'', world0)
   \<and> maxSmsLength config40 < int (length longReply) \<and> 34 \<le> maxSmsLength config40
   \<and> trim phone0 \<noteq> [] \<and> trim (drop (nat (maxSmsLength config40 - 34)) longReply) \<noteq> []
   \<and> fst (handleLongResponse env0 config40 phone0 longReply world0) = Inr (''abcdef'' @ continueMarker)
   \<and> map_option rmContent (fst (getLatestRemainingMessage env0 phone0
        (snd (handleLongResponse env0 config40 phone0 longReply world0))))
      = Some (trim (drop 6 longReply))"
proof -
  have short: "int (length ''ok'') \<le> maxSmsLength config40"
    by (simp add: longReply_facts)
  have hyp: "maxSmsLength config40 < int (length longReply) \<and> 34 \<le> maxSmsLength config40
      \<and> trim phone0 \<noteq> [] \<and> trim (drop (nat (maxSmsLength config40 - 34)) longReply) \<noteq> []"
    by (simp add: longReply_facts)
  have older: "(\<forall>r\<in>set (remainingMessages world0). rmPhone r = trim phone0 \<longrightarrow> rmCreatedAt r < clock env0 (ticks world0))
      \<and> clock env0 (Suc (ticks world0)) < clock env0 (ticks world0) + 86400000"
    by (simp add: world0_def env0_def)
  have a: "handleLongResponse env0 config40 phone0 ''ok'' world0 = (Inr ''ok'', world0)"
    using handleLongResponse_roundtrip [of "''ok''" config40 env0 phone0 world0] short by blast
  have b: "\<exists>doc. handleLongResponse env0 config40 phone0 longReply world0 =
           (Inr (take (nat (maxSmsLength config40 - 34)) longReply @ continueMarker),
            world0\<lparr>ticks := Suc (ticks world0), remainingMessages := remainingMessages world0 @ [doc]\<rparr>)
         \<and> rmContent doc = trim (drop (nat (maxSmsLength config40 - 34)) longReply)
         \<and> fst (getLatestRemainingMessage env0 phone0 (snd (handleLongResponse env0 config40 phone0 longReply world0))) = Some doc"
    using handleLongResponse_roundtrip [of longReply config40 env0 phone0 world0] hyp older by blast
  have n: "nat (maxSmsLength config40 - 34) = 6" by (simp add: longReply_facts)
  have pre: "take 6 longReply = ''abcdef''" by (simp add: longReply_def)
  from b obtain doc where
    d1: "fst (handleLongResponse env0 config40 phone0 longReply world0) = Inr (''abcdef'' @ continueMarker)"
    and d2: "map_option rmContent (fst (getLatestRemainingMessage env0 phone0
        (snd (handleLongResponse env0 config40 phone0 longReply world0)))) = Some (trim (drop 6 longReply))"
    unfolding n pre by force
  show ?thesis using short a hyp d1 d2 by blast
qed

text \<open>
  Claim C2 as the specification states it fails: the stored remainder is not
  \<open>reply[maxSmsLength - 34:]\<close> when that begins with a space, so the prefix followed by what
  the lookup returns is not the reply.
\<close>

theorem handleLongResponse_roundtrip_counterexample:
  "maxSmsLength config40 < int (length longReply)
   \<and> fst (handleLongResponse env0 config40 phone0 longReply world0) = Inr (''abcdef'' @ continueMarker)
   \<and> map_option rmContent (fst (getLatestRemainingMessage env0 phone0
        (snd (handleLongResponse env0 config40 phone0 longReply world0))))
      = Some ''ghijklmnopqrstuvwxyz0123456789ABCDEFGHIJ''
   \<and> substringFrom longReply (maxSmsLength config40 - 34) = '' ghijklmnopqrstuvwxyz0123456789ABCDEFGHIJ''
   \<and> ''abcdef'' @ ''ghijklmnopqrstuvwxyz0123456789ABCDEFGHIJ'' \<noteq> longReply"
  by (simp add: longReply_facts handleLongResponse_def createRemainingMessage_def
      getLatestRemainingMessage_def now_def first_def Let_def substring_def substringFrom_def
      clampIndex_def world0_def env0_def)
     (simp add: longReply_def)

subsection \<open>Conversation Store\<close>

text \<open>
  Claim C1 says that the history operation returns the most recent \<open>limit\<close> turns. On an
  account with eleven turns, created at times 1 to 11, \<open>getConversationHistory\<close> with
  limit 10 (the call of \<open>generateAIResponse\<close>) returns the turns of times 1 to 10, oldest
  first, and leaves out the newest; \<open>getRecentMessages\<close> on the same input keeps the
  newest ten.
\<close>

theorem history_returns_oldest:
  "getConversationHistory phone0 10 (map turn [1..<12]) =
     map (\<lambda>m. (role m, content m, createdAt m)) (map turn [1..<11])
   \<and> (RoleUser, ''turn 11'', 11) \<notin> set (getConversationHistory phone0 10 (map turn [1..<12]))
   \<and> (RoleUser, ''turn 1'', 1) \<in> set (getConversationHistory phone0 10 (map turn [1..<12]))
   \<and> getRecentMessages phone0 10 (map turn [1..<12]) =
     map (\<lambda>m. (role m, content m, createdAt m)) (rev (map turn [2..<12]))"
  by code_simp

subsection \<open>Command Interpreter: \<open>more\<close>\<close>

lemma more_step:
  assumes "trim (toLowerCase message) = ''more''"
  shows "processUserMessage e cfg p message w =
     (Inr (), w\<lparr>ticks := Suc (ticks w),
                twiml := twiml w @ [case first (sort_key (\<lambda>r. - int (rmCreatedAt r))
                   (filter (\<lambda>r. rmPhone r = trim p \<and> clock e (ticks w) < expiresAt r) (remainingMessages w))) of
                     Some r \<Rightarrow> rmContent r | None \<Rightarrow> ''You do not have any previous SMS'']\<rparr>)"
  using assms
  by (simp add: processUserMessage_def handleSpecialCommands_def getLatestRemainingMessage_def
      now_def sendTwiMLResponse_def Let_def)

text \<open>
  Claim C6. A message that normalises to \<open>more\<close> is answered in one of two ways. Either
  with the content of a continuation of the account that has not expired at the time of
  the lookup and that no other unexpired continuation of the account was created after;
  or, when every continuation of the account has expired (or none exists), with the fixed
  text \<open>You do not have any previous SMS\<close>. In both cases the request ends there without
  an error: apart from the clock reading and the reply, the state is what it was, so no
  credit is consumed and no provider is called.
\<close>

theorem more_command_reply:
  assumes cmd: "trim (toLowerCase message) = ''more''"
  shows
   "(\<exists>r \<in> set (remainingMessages w). rmPhone r = trim p \<and> clock e (ticks w) < expiresAt r \<and>
        (\<forall>r' \<in> set (remainingMessages w). rmPhone r' = trim p \<and> clock e (ticks w) < expiresAt r'
            \<longrightarrow> rmCreatedAt r' \<le> rmCreatedAt r) \<and>
        processUserMessage e cfg p message w =
          (Inr (), w\<lparr>ticks := Suc (ticks w), twiml := twiml w @ [rmContent r]\<rparr>))
    \<or> ((\<forall>r \<in> set (remainingMessages w). rmPhone r = trim p \<longrightarrow> expiresAt r \<le> clock e (ticks w)) \<and>
        processUserMessage e cfg p message w =
          (Inr (), w\<lparr>ticks := Suc (ticks w), twiml := twiml w @ [''You do not have any previous SMS'']\<rparr>))"
proof -
  let ?live = "filter (\<lambda>r. rmPhone r = trim p \<and> clock e (ticks w) < expiresAt r) (remainingMessages w)"
  let ?f = "\<lambda>r. - int (rmCreatedAt r)"
  show ?thesis
  proof (cases "first (sort_key ?f ?live)")
    case None
    then have "?live = []" by (simp add: first_sort_key_None)
    then have none: "\<forall>r \<in> set (remainingMessages w). rmPhone r = trim p \<longrightarrow> expiresAt r \<le> clock e (ticks w)"
      by (auto simp: filter_empty_conv)
    have "processUserMessage e cfg p message w =
          (Inr (), w\<lparr>ticks := Suc (ticks w), twiml := twiml w @ [''You do not have any previous SMS'']\<rparr>)"
      using more_step [OF cmd, of e cfg p w] None by simp
    then show ?thesis using none by blast
  next
    case (Some r)
    from first_sort_key_Some [OF Some]
    have rin: "r \<in> set ?live" and best: "\<forall>y\<in>set ?live. ?f r \<le> ?f y" by auto
    have newest: "\<forall>r' \<in> set (remainingMessages w). rmPhone r' = trim p \<and> clock e (ticks w) < expiresAt r'
            \<longrightarrow> rmCreatedAt r' \<le> rmCreatedAt r"
      using best by auto
    have "processUserMessage e cfg p message w =
          (Inr (), w\<lparr>ticks := Suc (ticks w), twiml := twiml w @ [rmContent r]\<rparr>)"
      using more_step [OF cmd, of e cfg p w] Some by simp
    then show ?thesis using rin newest by auto
  qed
qed

text \<open>
  The theorem with three stored continuations, the one created last already expired, and
  with none.
\<close>

theorem more_command_reply_witness:
  "trim (toLowerCase '' MORE '') = ''more''
   \<and> processUserMessage env0 config0 phone0 '' MORE '' worldParts =
        (Inr (), worldParts\<lparr>ticks := 1, twiml := [''second rest'']\<rparr>)
   \<and> processUserMessage env0 config0 phone0 '' MORE '' world0 =
        (Inr (), world0\<lparr>ticks := 1, twiml := [''You do not have any previous SMS'']\<rparr>)"
proof -
  have cmd: "trim (toLowerCase '' MORE '') = ''more''"
    by code_simp
  have ph: "trim phone0 = phone0" by (simp add: phone0_facts)
  have a: "processUserMessage env0 config0 phone0 '' MORE '' worldParts =
        (Inr (), worldParts\<lparr>ticks := 1, twiml := [''second rest'']\<rparr>)"
    using more_command_reply [OF cmd, of worldParts phone0 env0 config0]
    by (simp add: ph worldParts_def world0_def env0_def part_def) 
  have b: "processUserMessage env0 config0 phone0 '' MORE '' world0 =
        (Inr (), world0\<lparr>ticks := 1, twiml := [''You do not have any previous SMS'']\<rparr>)"
    using more_command_reply [OF cmd, of world0 phone0 env0 config0]
    by (simp add: ph world0_def env0_def)
  show ?thesis using cmd a b by blast
qed

subsection \<open>Credit Ledger\<close>

lemma manageUserCredits_keeps_invariant:
  assumes "balancesNonNegative w"
  shows "balancesNonNegative (snd (manageUserCredits e cfg p w))"
  using assms
  by (auto simp: manageUserCredits_def User_create_def User_save_def consumeCredit_def now_def
      Let_def balancesNonNegative_def User_findOne_def ran_def
      split: option.splits if_splits prod.splits)

lemma admitAll_keeps_invariant:
  "balancesNonNegative w \<Longrightarrow> balancesNonNegative (admitAll e cfg ps w)"
  by (induction ps arbitrary: w) (simp_all add: manageUserCredits_keeps_invariant)

lemma manageUserCredits_blocked:
  assumes "users w (trim p) = Some u" and "blance u \<le> 0"
  shows "manageUserCredits e cfg p w = (Inr None, w)"
  using assms by (simp add: manageUserCredits_def User_findOne_def)

text \<open>
  Claim C3. A sequence of admission calls, for any identifiers, keeps every balance at or
  above zero when it starts from a ledger whose balances are, and so when it starts from
  an empty ledger: an account is only created with a balance the schema accepts, and a
  credit is only taken from a positive balance. An admission call on an existing account
  with balance 0 returns \<open>null\<close> (not admitted) and leaves the whole state, that account
  included, as it was.
\<close>

theorem balance_never_negative:
  "(balancesNonNegative w \<longrightarrow> balancesNonNegative (admitAll e cfg ps w))
   \<and> (users w = Map.empty \<longrightarrow> balancesNonNegative (admitAll e cfg ps w))
   \<and> (users w (trim p) = Some u \<and> blance u = 0 \<longrightarrow> manageUserCredits e cfg p w = (Inr None, w))"
proof -
  have "users w = Map.empty \<longrightarrow> balancesNonNegative w"
    by (simp add: balancesNonNegative_def)
  then show ?thesis
    using admitAll_keeps_invariant [of w e cfg ps] manageUserCredits_blocked [of w p u e cfg]
    by auto
qed

text \<open>
  The theorem on an account with one credit left, admitted once and then refused twice
  while another identifier is admitted in between, and on an account at balance 0.
\<close>

lemma balancesNonNegative_worldWith: "balancesNonNegative (worldWith u) = (0 \<le> blance u)"
  by (simp add: balancesNonNegative_def worldWith_def)

theorem balance_never_negative_witness:
  "balancesNonNegative (worldWith (account 1 4))
   \<and> balancesNonNegative (admitAll env0 config0 [phone0, phone0, ''+15550002'', phone0] (worldWith (account 1 4)))
   \<and> map_option blance (users (admitAll env0 config0 [phone0, phone0, ''+15550002'', phone0]
         (worldWith (account 1 4))) phone0) = Some 0
   \<and> users (worldWith (account 0 5)) (trim phone0) = Some (account 0 5) \<and> blance (account 0 5) = 0
   \<and> manageUserCredits env0 config0 phone0 (worldWith (account 0 5)) = (Inr None, worldWith (account 0 5))"
proof -
  have pre: "balancesNonNegative (worldWith (account 1 4))"
    by (simp add: balancesNonNegative_worldWith account_def)
  have zero: "users (worldWith (account 0 5)) (trim phone0) = Some (account 0 5) \<and> blance (account 0 5) = 0"
    by (simp add: worldWith_def phone0_facts account_def)
  note inst = balance_never_negative [of "worldWith (account 1 4)" env0 config0
      "[phone0, phone0, ''+15550002'', phone0]"]
  have post: "balancesNonNegative (admitAll env0 config0 [phone0, phone0, ''+15550002'', phone0] (worldWith (account 1 4)))"
    using inst pre by blast
  have blocked: "manageUserCredits env0 config0 phone0 (worldWith (account 0 5)) = (Inr None, worldWith (account 0 5))"
    using balance_never_negative [of "worldWith (account 0 5)" env0 config0 "[]" phone0 "account 0 5"] zero
    by blast
  have bal: "map_option blance (users (admitAll env0 config0 [phone0, phone0, ''+15550002'', phone0]
         (worldWith (account 1 4))) phone0) = Some 0"
    by code_simp
  show ?thesis using pre post bal zero blocked by blast
qed

lemma phoneRegex_nonempty: "phoneRegex v \<Longrightarrow> v \<noteq> []"
  by (auto simp: phoneRegex_def)

text \<open>
  Claim C7, as the code has it. For an identifier without an account whose trimmed form
  has the format the account schema demands, and a configured trial count that is not
  negative, the admission call creates the account with the trial count as its balance
  and a usage counter of 1, and returns it: the new balance is not decremented. Without
  \<open>FREE_SMS_CREDITS\<close> the trial count is 9.
\<close>

theorem admit_new_account:
  "(users w (trim p) = None \<and> phoneRegex (trim p) \<and> 0 \<le> freeSmsCredits cfg \<longrightarrow>
      manageUserCredits e cfg p w =
        (let u = \<lparr>phNo = trim p, blance = freeSmsCredits cfg, smsSent = 1, isActive = True,
                  lastActivity = clock e (ticks w), userCreatedAt = clock e (ticks w),
                  updatedAt = clock e (ticks w)\<rparr>
         in (Inr (Some u), w\<lparr>ticks := Suc (ticks w), users := (users w)(trim p \<mapsto> u)\<rparr>)))
   \<and> freeSmsCredits (config_app None maxLen) = 9"
proof (intro conjI impI)
  assume h: "users w (trim p) = None \<and> phoneRegex (trim p) \<and> 0 \<le> freeSmsCredits cfg"
  then have ne: "trim p \<noteq> []" using phoneRegex_nonempty by blast
  show "manageUserCredits e cfg p w =
        (let u = \<lparr>phNo = trim p, blance = freeSmsCredits cfg, smsSent = 1, isActive = True,
                  lastActivity = clock e (ticks w), userCreatedAt = clock e (ticks w),
                  updatedAt = clock e (ticks w)\<rparr>
         in (Inr (Some u), w\<lparr>ticks := Suc (ticks w), users := (users w)(trim p \<mapsto> u)\<rparr>))"
    using h ne
    by (simp add: manageUserCredits_def User_findOne_def User_create_def now_def Let_def)
next
  show "freeSmsCredits (config_app None maxLen) = 9"
    by (simp add: config_app_def orElse_def)
qed

text \<open>The theorem at a fresh identifier with the default configuration.\<close>

theorem admit_new_account_witness:
  "users world0 (trim phone0) = None \<and> phoneRegex (trim phone0) \<and> 0 \<le> freeSmsCredits config0
   \<and> freeSmsCredits config0 = 9
   \<and> manageUserCredits env0 config0 phone0 world0 =
       (Inr (Some \<lparr>phNo = phone0, blance = 9, smsSent = 1, isActive = True,
                  lastActivity = 1000, userCreatedAt = 1000, updatedAt = 1000\<rparr>),
        world0\<lparr>ticks := 1, users := [phone0 \<mapsto> \<lparr>phNo = phone0, blance = 9, smsSent = 1, isActive = True,
                  lastActivity = 1000, userCreatedAt = 1000, updatedAt = 1000\<rparr>]\<rparr>)"
proof -
  have ph: "trim phone0 = phone0" by (simp add: phone0_facts)
  have nine: "freeSmsCredits config0 = 9"
    using admit_new_account [of world0 phone0 config0 env0 None] by (simp add: config0_def)
  have hyp: "users world0 (trim phone0) = None \<and> phoneRegex (trim phone0) \<and> 0 \<le> freeSmsCredits config0"
    unfolding ph nine by (simp add: world0_def) code_simp
  have "manageUserCredits env0 config0 phone0 world0 =
       (Inr (Some \<lparr>phNo = phone0, blance = 9, smsSent = 1, isActive = True,
                  lastActivity = 1000, userCreatedAt = 1000, updatedAt = 1000\<rparr>),
        world0\<lparr>ticks := 1, users := [phone0 \<mapsto> \<lparr>phNo = phone0, blance = 9, smsSent = 1, isActive = True,
                  lastActivity = 1000, userCreatedAt = 1000, updatedAt = 1000\<rparr>]\<rparr>)"
    using admit_new_account [of world0 phone0 config0 env0 None] hyp
    by (simp add: ph nine Let_def) (simp add: world0_def env0_def)
  then show ?thesis using hyp nine by blast
qed

text \<open>
  Claim C7 as stated, for every identifier, fails: the identifier \<open>+\<close> followed by a
  space has no account and passes the inbound format check, but its trimmed form \<open>+\<close> is
  refused by the account schema, so the admission call raises and no account exists
  afterwards. The same happens to any identifier when the configured trial count is
  negative.
\<close>

theorem admit_new_account_counterexample:
  "users world0 (trim ''+ '') = None
   \<and> manageUserCredits env0 config0 ''+ '' world0 =
       (Inl (ValidationError ''User'' ''phNo'' ''Invalid phone number format''), world0\<lparr>ticks := 1\<rparr>)
   \<and> users world0 (trim phone0) = None
   \<and> manageUserCredits env0 (config_app (Some (- 3)) None) phone0 world0 =
       (Inl (ValidationError ''User'' ''blance'' ''Balance cannot be negative''), world0\<lparr>ticks := 1\<rparr>)"
  by (simp add: manageUserCredits_def User_findOne_def User_create_def now_def Let_def
      world0_def config0_def config_app_def orElse_def phone0_facts)
     code_simp

subsection \<open>Response Provider Router\<close>

lemma getResponse_calls:
  "grokCalls (snd (getResponse e msgs opts w)) = grokCalls w @ [(msgs, opts)]"
  by (simp add: getResponse_def Let_def)

lemma getConversationalResponse_calls:
  "grokCalls (snd (getConversationalResponse e m h opts w)) =
     grokCalls w @ [((RoleSystem, systemPrompt) # h @ [(RoleUser, m)], opts)]"
  by (simp add: getConversationalResponse_def getResponse_calls)

lemma selectedCall_calls:
  "length (grokCalls (snd (selectedCall e m h opts w))) \<le> Suc (length (grokCalls w))"
  by (simp add: selectedCall_def Let_def getConversationalResponse_calls)

lemma routeMessage_ok:
  assumes "selectedCall e m h opts w = (Inr r, w1)"
  shows "routeMessage e m h opts w = (Inr r, w1)"
  using assms by (simp add: routeMessage_def)

lemma routeMessage_fallback:
  assumes "selectedCall e m h opts w = (Inl err, w1)"
  shows "routeMessage e m h opts w =
     (case getConversationalResponse e m h opts w1 of
        (Inr fb, w2) \<Rightarrow> (Inr fb, w2)
      | (Inl err2, w2) \<Rightarrow> (Inl (Error ''All AI services are currently unavailable''), w2))"
  using assms by (simp add: routeMessage_def)

lemma routeMessage_fallback_world:
  assumes "selectedCall e m h opts w = (Inl err, w1)"
  shows "snd (routeMessage e m h opts w) = snd (getConversationalResponse e m h opts w1)"
  using assms by (simp add: routeMessage_fallback split: prod.splits sum.splits)

text \<open>
  Claim C4. When the call of the selected provider fails, whatever the error, the router
  makes exactly one more provider call: the Grok conversational entry point with the same
  message, history and options. The router as a whole then has made at most two provider
  calls. If that call succeeds its text is the result; if it fails too, the result is the
  single error \<open>All AI services are currently unavailable\<close>. When the selected call
  succeeds, no further call is made.
\<close>

theorem fallback_exactly_once:
  "(selectedCall e m h opts w = (Inl err, w1) \<longrightarrow>
      grokCalls (snd (routeMessage e m h opts w)) =
        grokCalls w1 @ [((RoleSystem, systemPrompt) # h @ [(RoleUser, m)], opts)]
      \<and> length (grokCalls (snd (routeMessage e m h opts w))) \<le> length (grokCalls w) + 2
      \<and> (\<forall>fb w2. getConversationalResponse e m h opts w1 = (Inr fb, w2) \<longrightarrow>
            routeMessage e m h opts w = (Inr fb, w2))
      \<and> (\<forall>err2 w2. getConversationalResponse e m h opts w1 = (Inl err2, w2) \<longrightarrow>
            routeMessage e m h opts w =
              (Inl (Error ''All AI services are currently unavailable''), w2)))
   \<and> (selectedCall e m h opts w = (Inr r, w1) \<longrightarrow> routeMessage e m h opts w = (Inr r, w1))"
proof (intro conjI impI)
  assume sel: "selectedCall e m h opts w = (Inl err, w1)"
  have w: "snd (routeMessage e m h opts w) = snd (getConversationalResponse e m h opts w1)"
    by (rule routeMessage_fallback_world [OF sel])
  show one: "grokCalls (snd (routeMessage e m h opts w)) =
        grokCalls w1 @ [((RoleSystem, systemPrompt) # h @ [(RoleUser, m)], opts)]"
    by (simp add: w getConversationalResponse_calls)
  have "length (grokCalls w1) \<le> Suc (length (grokCalls w))"
    using selectedCall_calls [of e m h opts w] sel by simp
  then show "length (grokCalls (snd (routeMessage e m h opts w))) \<le> length (grokCalls w) + 2"
    by (simp add: one)
  show "\<forall>fb w2. getConversationalResponse e m h opts w1 = (Inr fb, w2) \<longrightarrow>
            routeMessage e m h opts w = (Inr fb, w2)"
    by (simp add: routeMessage_fallback [OF sel])
  show "\<forall>err2 w2. getConversationalResponse e m h opts w1 = (Inl err2, w2) \<longrightarrow>
            routeMessage e m h opts w =
              (Inl (Error ''All AI services are currently unavailable''), w2)"
    by (simp add: routeMessage_fallback [OF sel])
next
  assume "selectedCall e m h opts w = (Inr r, w1)"
  then show "routeMessage e m h opts w = (Inr r, w1)" by (rule routeMessage_ok)
qed

text \<open>
  The theorem with an endpoint that is down (two calls, the aggregate error), one that
  fails once (two calls, the second one's text) and one that answers (one call).
\<close>

theorem fallback_exactly_once_witness:
  "selectedCall envDown ''hello'' [] noOptions world0 =
      (Inl (ServiceUnavailableError ''Grok AI service temporarily unavailable''),
       world0\<lparr>grokCalls := [(hello, noOptions)]\<rparr>)
   \<and> routeMessage envDown ''hello'' [] noOptions world0 =
      (Inl (Error ''All AI services are currently unavailable''),
       world0\<lparr>grokCalls := [(hello, noOptions), (hello, noOptions)]\<rparr>)
   \<and> selectedCall envFlaky ''hello'' [] noOptions world0 =
      (Inl (ServiceUnavailableError ''No response from Grok AI API''),
       world0\<lparr>grokCalls := [(hello, noOptions)]\<rparr>)
   \<and> routeMessage envFlaky ''hello'' [] noOptions world0 =
      (Inr ''Hello again'', world0\<lparr>grokCalls := [(hello, noOptions), (hello, noOptions)]\<rparr>)
   \<and> selectedCall env0 ''hello'' [] noOptions world0 =
      (Inr ''Hello from Grok'', world0\<lparr>grokCalls := [(hello, noOptions)]\<rparr>)
   \<and> routeMessage env0 ''hello'' [] noOptions world0 =
      (Inr ''Hello from Grok'', world0\<lparr>grokCalls := [(hello, noOptions)]\<rparr>)"
proof -
  have sp: "selectProvider ''hello'' [] noOptions = ''grok''"
    by code_simp
  have s1: "selectedCall envDown ''hello'' [] noOptions world0 =
      (Inl (ServiceUnavailableError ''Grok AI service temporarily unavailable''),
       world0\<lparr>grokCalls := [(hello, noOptions)]\<rparr>)"
    by (simp add: selectedCall_def sp getConversationalResponse_def getResponse_def Let_def
        envDown_def env0_def world0_def hello_def)
  have f1: "getConversationalResponse envDown ''hello'' [] noOptions (world0\<lparr>grokCalls := [(hello, noOptions)]\<rparr>) =
      (Inl (ServiceUnavailableError ''Grok AI service temporarily unavailable''),
       world0\<lparr>grokCalls := [(hello, noOptions), (hello, noOptions)]\<rparr>)"
    by (simp add: getConversationalResponse_def getResponse_def Let_def
        envDown_def env0_def world0_def hello_def)
  have r1: "routeMessage envDown ''hello'' [] noOptions world0 =
      (Inl (Error ''All AI services are currently unavailable''),
       world0\<lparr>grokCalls := [(hello, noOptions), (hello, noOptions)]\<rparr>)"
    using fallback_exactly_once [of envDown "''hello''" "[]" noOptions world0] s1 f1 by blast
  have s2: "selectedCall envFlaky ''hello'' [] noOptions world0 =
      (Inl (ServiceUnavailableError ''No response from Grok AI API''),
       world0\<lparr>grokCalls := [(hello, noOptions)]\<rparr>)"
    by (simp add: selectedCall_def sp getConversationalResponse_def getResponse_def Let_def
        envFlaky_def env0_def world0_def hello_def)
  have f2: "getConversationalResponse envFlaky ''hello'' [] noOptions (world0\<lparr>grokCalls := [(hello, noOptions)]\<rparr>) =
      (Inr ''Hello again'', world0\<lparr>grokCalls := [(hello, noOptions), (hello, noOptions)]\<rparr>)"
    by (simp add: getConversationalResponse_def getResponse_def Let_def
        envFlaky_def env0_def world0_def hello_def)
  have r2: "routeMessage envFlaky ''hello'' [] noOptions world0 =
      (Inr ''Hello again'', world0\<lparr>grokCalls := [(hello, noOptions), (hello, noOptions)]\<rparr>)"
    using fallback_exactly_once [of envFlaky "''hello''" "[]" noOptions world0] s2 f2 by blast
  have s3: "selectedCall env0 ''hello'' [] noOptions world0 =
      (Inr ''Hello from Grok'', world0\<lparr>grokCalls := [(hello, noOptions)]\<rparr>)"
    by (simp add: selectedCall_def sp getConversationalResponse_def getResponse_def Let_def
        env0_def world0_def hello_def)
  have r3: "routeMessage env0 ''hello'' [] noOptions world0 =
      (Inr ''Hello from Grok'', world0\<lparr>grokCalls := [(hello, noOptions)]\<rparr>)"
    using fallback_exactly_once [of env0 "''hello''" "[]" noOptions world0] s3 by blast
  show ?thesis using s1 r1 s2 r2 s3 r3 by blast
qed

lemma selectProvider_no_override:
  "explicitProvider opts = None \<Longrightarrow> selectProvider m h opts = ''grok''"
  by (simp add: selectProvider_def defaultProvider_def Let_def)

text \<open>
  Claim C8. Without an explicit provider override that counts (none given, an empty one,
  or a name that \<open>this.providers\<close> does not know), \<open>selectProvider\<close> returns the primary
  provider \<open>grok\<close> whatever the message and the history are, never the secondary
  \<open>openai\<close>, and the selected call is the Grok conversational call. The options of live
  routing, the default \<open>{}\<close> that \<open>generateAIResponse\<close> leaves in place, carry no override.
\<close>

theorem secondary_never_selected:
  "(explicitProvider opts = None \<longrightarrow>
      selectProvider m h opts = ''grok'' \<and> selectProvider m h opts \<noteq> fallbackProvider
      \<and> selectedCall e m h opts w = getConversationalResponse e m h opts w)
   \<and> explicitProvider noOptions = None"
  by (simp add: selectProvider_no_override selectedCall_def fallbackProvider_def
      explicitProvider_def noOptions_def)

text \<open>
  The theorem in each case of the heuristic: a complex-intent match, a technical-term
  match, a history of more than 5 turns, a message of more than 500 characters, and the
  default.
\<close>

theorem secondary_never_selected_witness:
  "explicitProvider noOptions = None
   \<and> isComplexMessage ''Explain tides'' \<and> selectProvider ''Explain tides'' [] noOptions = ''grok''
   \<and> hasTechnicalTerms ''Database down'' \<and> selectProvider ''Database down'' [] noOptions = ''grok''
   \<and> length (replicate 6 (RoleUser, ''again'')) = 6
   \<and> selectProvider ''hi'' (replicate 6 (RoleUser, ''again'')) noOptions = ''grok''
   \<and> length (replicate 501 (CHR ''x'')) = 501
   \<and> selectProvider (replicate 501 (CHR ''x'')) [] noOptions = ''grok''
   \<and> selectProvider ''hi'' [] noOptions = ''grok''"
proof -
  have none: "explicitProvider noOptions = None"
    by (simp add: explicitProvider_def noOptions_def)
  have c: "isComplexMessage ''Explain tides''" by code_simp
  have t: "hasTechnicalTerms ''Database down''" by code_simp
  have g: "selectProvider m h noOptions = ''grok''" for m h
    using secondary_never_selected [of noOptions m h] none by blast
  show ?thesis using none c t g by simp
qed

subsection \<open>Transcription Adapter\<close>

text \<open>
  Claim C9 says that an attachment whose declared content type is not one of the
  supported audio types is rejected before any transcription call. \<open>validateAudio\<close>
  would refuse the type \<open>video/mp4\<close>, but \<open>processInboundAudio\<close> never calls it: a
  three-byte attachment declared as \<open>video/mp4\<close> is downloaded and handed to the
  transcription endpoint with that type, and its transcript is used.
\<close>

theorem unsupported_type_is_transcribed:
  "''video/mp4'' \<notin> set getSupportedFormats
   \<and> \<not> validateAudio [1, 2, 3] ''video/mp4''
   \<and> processInboundAudio env0 videoRequest world0 =
       (Inr (Some ''transcribed words'', True),
        world0\<lparr>whisperCalls := [([1, 2, 3], ''audio.wav'', ''video/mp4'')]\<rparr>)"
  by (simp add: getSupportedFormats_def validateAudio_def processInboundAudio_def
      downloadAudio_def transcribeAudioBuffer_def orDefault_def maxAudioSize_def Let_def
      videoRequest_def env0_def world0_def trim_def isWhiteSpace_def)

subsection \<open>What each step leaves untouched\<close>

lemma Message_create_frame:
  "users (snd (Message_create e p r c w)) = users w"
  "timers (snd (Message_create e p r c w)) = timers w"
  "twiml (snd (Message_create e p r c w)) = twiml w"
  by (simp_all add: Message_create_def now_def Let_def)

lemma Message_create_messages:
  assumes "Message_create e p r c w = (Inr t, w1)"
  shows "messages w1 = messages w @ [t] \<and> role t = r \<and> content t = trim c \<and> phone t = trim p"
  using assms by (auto simp: Message_create_def now_def Let_def split: if_splits)

lemma getConversationalResponse_frame:
  "users (snd (getConversationalResponse e m h opts w)) = users w"
  "timers (snd (getConversationalResponse e m h opts w)) = timers w"
  "twiml (snd (getConversationalResponse e m h opts w)) = twiml w"
  "messages (snd (getConversationalResponse e m h opts w)) = messages w"
  by (simp_all add: getConversationalResponse_def getResponse_def Let_def)

lemma selectedCall_frame:
  "users (snd (selectedCall e m h opts w)) = users w"
  "timers (snd (selectedCall e m h opts w)) = timers w"
  "twiml (snd (selectedCall e m h opts w)) = twiml w"
  "messages (snd (selectedCall e m h opts w)) = messages w"
  by (simp_all add: selectedCall_def Let_def getConversationalResponse_frame)


lemma Message_create_frame_pair:
  assumes "Message_create e p r c w = (res, w')"
  shows "users w' = users w \<and> timers w' = timers w \<and> twiml w' = twiml w"
  using Message_create_frame [of e p r c w] assms by simp





lemma handleAudioInbound_frame:
  assumes "handleAudioInbound e req w = (res, w1)"
  shows "twiml w1 = twiml w \<and> messages w1 = messages w"
  using assms
  by (auto simp: handleAudioInbound_def processInboundAudio_def transcribeAudioBuffer_def Let_def
      split: option.splits if_splits sum.splits prod.splits)

lemma manageUserCredits_frame:
  assumes "manageUserCredits e cfg p w = (res, w1)"
  shows "twiml w1 = twiml w \<and> messages w1 = messages w \<and> timers w1 = timers w"
  using assms
  by (auto simp: manageUserCredits_def User_create_def User_save_def consumeCredit_def now_def
      Let_def split: option.splits if_splits prod.splits sum.splits)

lemma generateAIResponse_exhausted:
  assumes saved: "Message_create e p RoleUser m w = (Inr t, w3)"
    and fail1: "selectedCall e m (formattedHistory (getConversationHistory p 10 (messages w3)))
                  noOptions w3 = (Inl err1, w4)"
    and fail2: "getConversationalResponse e m
                  (formattedHistory (getConversationHistory p 10 (messages w3))) noOptions w4
                = (Inl err2, w5)"
  shows "generateAIResponse e p m w = (Inl (Error ''All AI services are currently unavailable''), w5)"
  using assms by (simp add: generateAIResponse_def routeMessage_def Let_def)

lemma hello_facts:
  "trim ''hello'' = ''hello''" "trim (toLowerCase ''hello'') = ''hello''"
  "trim ''Hello from Grok'' = ''Hello from Grok''"
  by code_simp+

lemma handleSpecialCommands_other:
  assumes "trim (toLowerCase m) \<notin> set [''stop'', ''account'', ''delete history'', ''delete account'', ''more'']"
  shows "handleSpecialCommands e p m w = (False, w)"
  using assms by (simp add: handleSpecialCommands_def Let_def)

subsection \<open>Dialogue Orchestrator: both provider calls fail\<close>

text \<open>
  Claim C5. Take a request that reaches generation: the audio step returns, the merged
  text is not empty and is no command, the account is admitted, and the user turn is
  stored. If then the call of the selected provider fails and the fallback call fails
  too, \<open>handleIncomingSMS\<close> ends with exactly one more reply, the generic failure text;
  the stored turns are those from before followed by the user turn alone, so no assistant
  turn is written and the user turn stays.
\<close>

theorem exhausted_fallback_reply:
  assumes audio: "handleAudioInbound e req w = (Inr (transcript, usedAudio), w1)"
    and notLarge: "transcript \<noteq> Some ''audio too large''"
    and merged: "mergeMessage (trim (orDefault (Body req) [])) transcript usedAudio = m"
    and nonEmpty: "m \<noteq> []"
    and notCommand: "handleSpecialCommands e (From req) m w1 = (False, w1)"
    and admitted: "manageUserCredits e cfg (From req) w1 = (Inr (Some u), w2)"
    and saved: "Message_create e (From req) RoleUser m w2 = (Inr t, w3)"
    and fail1: "selectedCall e m (formattedHistory (getConversationHistory (From req) 10 (messages w3)))
                  noOptions w3 = (Inl err1, w4)"
    and fail2: "getConversationalResponse e m
                  (formattedHistory (getConversationHistory (From req) 10 (messages w3))) noOptions w4
                = (Inl err2, w5)"
  shows "handleIncomingSMS e cfg req w = sendTwiMLResponse genericFailure w5
     \<and> twiml (handleIncomingSMS e cfg req w) = twiml w @ [genericFailure]
     \<and> messages (handleIncomingSMS e cfg req w) = messages w @ [t]
     \<and> role t = RoleUser \<and> phone t = trim (From req) \<and> content t = trim m"
proof -
  have gen: "generateAIResponse e (From req) m w2 =
      (Inl (Error ''All AI services are currently unavailable''), w5)"
    by (rule generateAIResponse_exhausted [OF saved fail1 fail2])
  have proc: "processUserMessage e cfg (From req) m w1 =
      (Inl (Error ''All AI services are currently unavailable''), w5)"
    by (simp add: processUserMessage_def notCommand admitted gen)
  have top: "handleIncomingSMS e cfg req w = sendTwiMLResponse genericFailure w5"
    using notLarge nonEmpty
    by (simp add: handleIncomingSMS_def audio merged proc Let_def)
  have a1: "twiml w1 = twiml w \<and> messages w1 = messages w"
    by (rule handleAudioInbound_frame [OF audio])
  have a2: "twiml w2 = twiml w1 \<and> messages w2 = messages w1"
    using manageUserCredits_frame [OF admitted] by simp
  have a3: "messages w3 = messages w2 @ [t] \<and> role t = RoleUser \<and> content t = trim m
      \<and> phone t = trim (From req)"
    by (rule Message_create_messages [OF saved])
  have a3': "twiml w3 = twiml w2"
    using Message_create_frame_pair [OF saved] by simp
  let ?h = "formattedHistory (getConversationHistory (From req) 10 (messages w3))"
  have a4: "twiml w4 = twiml w3 \<and> messages w4 = messages w3"
    using selectedCall_frame [of e m ?h noOptions w3] fail1 by simp
  have a5: "twiml w5 = twiml w4 \<and> messages w5 = messages w4"
    using getConversationalResponse_frame [of e m ?h noOptions w4] fail2 by simp
  show ?thesis
    using top a1 a2 a3 a3' a4 a5 by (simp add: sendTwiMLResponse_def)
qed

text \<open>The theorem for a first \<open>hello\<close> from a new identifier while the Grok endpoint is down.\<close>

theorem exhausted_fallback_reply_witness:
  "handleAudioInbound envDown helloRequest world0 = (Inr (None, False), world0)
   \<and> mergeMessage (trim (orDefault (Body helloRequest) [])) None False = ''hello''
   \<and> handleSpecialCommands envDown (From helloRequest) ''hello'' world0 = (False, world0)
   \<and> manageUserCredits envDown config0 (From helloRequest) world0 =
        (Inr (Some trialUser), world0\<lparr>ticks := 1, users := [phone0 \<mapsto> trialUser]\<rparr>)
   \<and> Message_create envDown (From helloRequest) RoleUser ''hello''
          (world0\<lparr>ticks := 1, users := [phone0 \<mapsto> trialUser]\<rparr>) =
        (Inr helloTurn, world0\<lparr>ticks := 2, users := [phone0 \<mapsto> trialUser], messages := [helloTurn]\<rparr>)
   \<and> handleIncomingSMS envDown config0 helloRequest world0 =
        world0\<lparr>ticks := 2, users := [phone0 \<mapsto> trialUser], messages := [helloTurn],
               grokCalls := [helloTwice, helloTwice], twiml := [genericFailure]\<rparr>
   \<and> twiml (handleIncomingSMS envDown config0 helloRequest world0) = [genericFailure]
   \<and> messages (handleIncomingSMS envDown config0 helloRequest world0) = [helloTurn]
   \<and> role helloTurn = RoleUser"
proof -
  let ?wA = "world0\<lparr>ticks := 1, users := [phone0 \<mapsto> trialUser]\<rparr>"
  let ?wB = "world0\<lparr>ticks := 2, users := [phone0 \<mapsto> trialUser], messages := [helloTurn]\<rparr>"
  let ?wC = "world0\<lparr>ticks := 2, users := [phone0 \<mapsto> trialUser], messages := [helloTurn],
               grokCalls := [helloTwice]\<rparr>"
  let ?wD = "world0\<lparr>ticks := 2, users := [phone0 \<mapsto> trialUser], messages := [helloTurn],
               grokCalls := [helloTwice, helloTwice]\<rparr>"
  let ?err = "ServiceUnavailableError ''Grok AI service temporarily unavailable''"
  have ph: "trim phone0 = phone0" "phone0 \<noteq> []" by (simp_all add: phone0_facts)
  have rx: "phoneRegex phone0" unfolding phone0_def by code_simp
  have audio: "handleAudioInbound envDown helloRequest world0 = (Inr (None, False), world0)"
    by (simp add: handleAudioInbound_def processInboundAudio_def helloRequest_def)
  have large: "(None :: string option) \<noteq> Some ''audio too large''" by simp
  have merged: "mergeMessage (trim (orDefault (Body helloRequest) [])) None False = ''hello''"
    by (simp add: mergeMessage_def orDefault_def helloRequest_def hello_facts)
  have ne: "''hello'' \<noteq> []" by simp
  have cmd: "handleSpecialCommands envDown (From helloRequest) ''hello'' world0 = (False, world0)"
    by (rule handleSpecialCommands_other) (simp add: hello_facts)
  have adm: "manageUserCredits envDown config0 (From helloRequest) world0 = (Inr (Some trialUser), ?wA)"
    by (simp add: manageUserCredits_def User_findOne_def User_create_def now_def Let_def ph rx
        helloRequest_def config0_def config_app_def orElse_def trialUser_def
        world0_def envDown_def env0_def)
  have saved: "Message_create envDown (From helloRequest) RoleUser ''hello'' ?wA = (Inr helloTurn, ?wB)"
    by (simp add: Message_create_def now_def Let_def ph hello_facts helloRequest_def helloTurn_def
        world0_def envDown_def env0_def)
  have hist: "formattedHistory (getConversationHistory (From helloRequest) 10 (messages ?wB))
      = [(RoleUser, ''hello'')]"
    by (simp add: formattedHistory_def getConversationHistory_def limit_def ph helloRequest_def
        helloTurn_def world0_def)
  have sp: "selectProvider ''hello'' [(RoleUser, ''hello'')] noOptions = ''grok''"
    by (rule selectProvider_no_override) (simp add: explicitProvider_def noOptions_def)
  have fail1: "selectedCall envDown ''hello''
      (formattedHistory (getConversationHistory (From helloRequest) 10 (messages ?wB))) noOptions ?wB
      = (Inl ?err, ?wC)"
    unfolding hist
    by (simp add: selectedCall_def sp getConversationalResponse_def getResponse_def Let_def
        envDown_def env0_def world0_def helloTwice_def)
  have fail2: "getConversationalResponse envDown ''hello''
      (formattedHistory (getConversationHistory (From helloRequest) 10 (messages ?wB))) noOptions ?wC
      = (Inl ?err, ?wD)"
    unfolding hist
    by (simp add: getConversationalResponse_def getResponse_def Let_def
        envDown_def env0_def world0_def helloTwice_def)
  note inst = exhausted_fallback_reply [OF audio large merged ne cmd adm saved fail1 fail2]
  have top: "handleIncomingSMS envDown config0 helloRequest world0 =
        world0\<lparr>ticks := 2, users := [phone0 \<mapsto> trialUser], messages := [helloTurn],
               grokCalls := [helloTwice, helloTwice], twiml := [genericFailure]\<rparr>"
    using inst by (simp add: sendTwiMLResponse_def world0_def)
  have tw: "twiml (handleIncomingSMS envDown config0 helloRequest world0) = [genericFailure]"
    by (simp add: top)
  have ms: "messages (handleIncomingSMS envDown config0 helloRequest world0) = [helloTurn]"
    by (simp add: top)
  have "role helloTurn = RoleUser" using inst by simp
  then show ?thesis using audio merged cmd adm saved top tw ms by simp
qed

subsection \<open>Welcome notification after a top-up\<close>


















end
